theory Spec2Isabelle
  imports Main
begin

section \<open>Data model\<close>

text \<open>
  The \<^verbatim>\<open>Student\<close> struct of \<^verbatim>\<open>main.go\<close>. Go's \<^verbatim>\<open>int\<close> is modelled as
  \<^typ>\<open>int\<close>: the only arithmetic on it is \<^verbatim>\<open>len(students) + 1\<close>, which cannot
  leave the 64-bit range for a slice that fits in memory, and comparisons.
\<close>

record Student =
  ID :: int
  Name :: string
  Age :: int
  Email :: string

text \<open>The zero value of \<^verbatim>\<open>var newStudent Student\<close>.\<close>

definition zeroStudent :: Student where
  "zeroStudent = \<lparr>ID = 0, Name = [], Age = 0, Email = []\<rparr>"

text \<open>
  What a handler reads from \<^verbatim>\<open>*http.Request\<close>: \<^verbatim>\<open>r.Method\<close>,
  \<^verbatim>\<open>r.PathValue("id")\<close>, \<^verbatim>\<open>r.Header.Get("Content-Type")\<close> and the body, whose
  representation is left open.
\<close>

record 'b request =
  reqMethod :: string
  pathValueId :: string
  contentType :: string
  reqBody :: 'b

text \<open>
  The standard-library calls the handlers make, taken as parameters:
  \<^item> \<^verbatim>\<open>strconv.Atoi(s)\<close>; \<open>None\<close> is a non-nil error;
  \<^item> \<^verbatim>\<open>json.NewDecoder(r.Body).Decode(&s)\<close>, from the body and the current value of the
    struct to its value after decoding; \<open>None\<close> is a non-nil error;
  \<^item> \<^verbatim>\<open>r.ParseForm()\<close> followed by \<^verbatim>\<open>r.FormValue(key)\<close>; \<open>None\<close> is a non-nil
    error of \<^verbatim>\<open>ParseForm\<close>.
\<close>

record 'b stdlib =
  Atoi :: "string \<Rightarrow> int option"
  Decode :: "'b \<Rightarrow> Student \<Rightarrow> Student option"
  ParseForm :: "'b request \<Rightarrow> (string \<Rightarrow> string) option"

text \<open>
  A response is the status code and what was written to the body. Response headers
  (CORS, \<^verbatim>\<open>Content-Type\<close>) are not modelled.
\<close>

datatype body = Text string | JSONStudent Student | JSONStudents "Student list" | NoBody

record response =
  status :: nat
  respBody :: body

text \<open>\<^verbatim>\<open>http.Error(w, msg, code)\<close>.\<close>

definition httpError :: "string \<Rightarrow> nat \<Rightarrow> response" where
  "httpError msg code = \<lparr>status = code, respBody = Text msg\<rparr>"

section \<open>Validation\<close>

text \<open>\<^verbatim>\<open>validateStudent\<close>; \<open>None\<close> is the \<^verbatim>\<open>nil\<close> error, \<open>Some msg\<close> the error text.\<close>

definition validateStudent :: "Student \<Rightarrow> string option" where
  "validateStudent student =
     (if Name student = [] then Some ''name is required''
      else if Age student \<le> 0 \<or> Age student > 150 then Some ''age must be between 1 and 150''
      else if Email student = [] then Some ''email is required''
      else None)"

text \<open>
  The validator in the specification's words: a list of rules in a fixed order, each a
  condition that must hold and the message reported when it does not; the first
  failing rule wins.
\<close>

fun firstFailing :: "(bool \<times> string) list \<Rightarrow> string option" where
  "firstFailing [] = None"
| "firstFailing ((ok, msg) # rules) = (if ok then firstFailing rules else Some msg)"

definition validationRules :: "Student \<Rightarrow> (bool \<times> string) list" where
  "validationRules c =
     [(Name c \<noteq> [], ''name is required''),
      (1 \<le> Age c \<and> Age c \<le> 150, ''age must be between 1 and 150''),
      (Email c \<noteq> [], ''email is required'')]"

section \<open>Handlers\<close>

text \<open>The store is the global slice \<^verbatim>\<open>students\<close>; every handler takes it and returns it.\<close>

type_synonym store = "Student list"

text \<open>
  \<^verbatim>\<open>handleStudents\<close> (GET /students). \<^verbatim>\<open>json.Marshal\<close> of a slice of this struct has
  no failing case, so the 500 branch is never taken.
\<close>

definition handleStudents :: "store \<Rightarrow> response" where
  "handleStudents students = \<lparr>status = 200, respBody = JSONStudents students\<rparr>"

text \<open>
  The form branch shared by POST and PUT (lines 134-151 and 214-231): fills name, age
  and email of the struct from the form values, or answers 400.
\<close>

definition formStudent :: "'b stdlib \<Rightarrow> 'b request \<Rightarrow> Student \<Rightarrow> response + Student" where
  "formStudent L r student =
     (case ParseForm L r of
        None \<Rightarrow> Inl (httpError ''Invalid form data'' 400)
      | Some formValue \<Rightarrow>
          (let ageStr = formValue ''age'' in
           if ageStr = [] then Inl (httpError ''Age is required'' 400)
           else (case Atoi L ageStr of
                   None \<Rightarrow> Inl (httpError (''Invalid age: '' @ ageStr @ '' (must be a number)'') 400)
                 | Some age \<Rightarrow>
                     Inr (student\<lparr>Name := formValue ''name'', Age := age,
                                  Email := formValue ''email''\<rparr>))))"

text \<open>Lines 124-152: the candidate of a POST request, or the 400 response.\<close>

definition decodePost :: "'b stdlib \<Rightarrow> 'b request \<Rightarrow> response + Student" where
  "decodePost L r =
     (if contentType r = ''application/json'' then
        (case Decode L (reqBody r) zeroStudent of
           None \<Rightarrow> Inl (httpError ''Invalid JSON data'' 400)
         | Some newStudent \<Rightarrow> Inr newStudent)
      else formStudent L r zeroStudent)"

text \<open>Lines 154-166: validate, assign the id, append, answer 201 with the record.\<close>

definition postStudents :: "'b stdlib \<Rightarrow> 'b request \<Rightarrow> store \<Rightarrow> response \<times> store" where
  "postStudents L r students =
     (case decodePost L r of
        Inl resp \<Rightarrow> (resp, students)
      | Inr newStudent \<Rightarrow>
          (case validateStudent newStudent of
             Some err \<Rightarrow> (httpError err 400, students)
           | None \<Rightarrow>
               (let stored = newStudent\<lparr>ID := int (length students) + 1\<rparr> in
                (\<lparr>status = 201, respBody = JSONStudent stored\<rparr>, students @ [stored]))))"

text \<open>The handler registered for \<^verbatim>\<open>/students\<close>.\<close>

definition studentsHandler :: "'b stdlib \<Rightarrow> 'b request \<Rightarrow> store \<Rightarrow> response \<times> store" where
  "studentsHandler L r students =
     (if reqMethod r = ''GET'' then (handleStudents students, students)
      else if reqMethod r = ''POST'' then postStudents L r students
      else (httpError ''Method not allowed'' 405, students))"

text \<open>The loop of GET /students/{id} (lines 186-192): the first record with the id.\<close>

fun findStudent :: "int \<Rightarrow> store \<Rightarrow> Student option" where
  "findStudent i [] = None"
| "findStudent i (student # rest) = (if ID student = i then Some student else findStudent i rest)"

definition getStudent :: "'b stdlib \<Rightarrow> 'b request \<Rightarrow> store \<Rightarrow> response" where
  "getStudent L r students =
     (case Atoi L (pathValueId r) of
        None \<Rightarrow> httpError ''Invalid ID'' 400
      | Some i \<Rightarrow>
          (case findStudent i students of
             Some student \<Rightarrow> \<lparr>status = 200, respBody = JSONStudent student\<rparr>
           | None \<Rightarrow> httpError ''Student not found'' 404))"

text \<open>Lines 202-232: the replacement record of a PUT request, or the 400 response.\<close>

definition decodePut :: "'b stdlib \<Rightarrow> 'b request \<Rightarrow> int \<Rightarrow> response + Student" where
  "decodePut L r i =
     (let updatedStudent = zeroStudent\<lparr>ID := i\<rparr> in
      if contentType r = ''application/json'' then
        (case Decode L (reqBody r) updatedStudent of
           None \<Rightarrow> Inl (httpError ''Invalid JSON data'' 400)
         | Some decoded \<Rightarrow> Inr (decoded\<lparr>ID := i\<rparr>))
      else formStudent L r updatedStudent)"

text \<open>
  The loop of PUT (lines 244-251): overwrite the first record whose id is that of the
  replacement; \<open>None\<close> when the loop ends without a match.
\<close>

fun updateLoop :: "Student \<Rightarrow> store \<Rightarrow> store option" where
  "updateLoop updatedStudent [] = None"
| "updateLoop updatedStudent (student # rest) =
     (if ID student = ID updatedStudent then Some (updatedStudent # rest)
      else map_option ((#) student) (updateLoop updatedStudent rest))"

definition putStudent :: "'b stdlib \<Rightarrow> 'b request \<Rightarrow> store \<Rightarrow> response \<times> store" where
  "putStudent L r students =
     (case Atoi L (pathValueId r) of
        None \<Rightarrow> (httpError ''Invalid ID'' 400, students)
      | Some i \<Rightarrow>
          (case decodePut L r i of
             Inl resp \<Rightarrow> (resp, students)
           | Inr updatedStudent \<Rightarrow>
               (case validateStudent updatedStudent of
                  Some err \<Rightarrow> (httpError err 400, students)
                | None \<Rightarrow>
                    (case updateLoop updatedStudent students of
                       Some students' \<Rightarrow>
                         (\<lparr>status = 200, respBody = JSONStudent updatedStudent\<rparr>, students')
                     | None \<Rightarrow> (httpError ''Student not found'' 404, students)))))"

text \<open>
  The loop of DELETE (lines 264-270): \<^verbatim>\<open>append(students[:i], students[i+1:]...)\<close> at
  the first record with the id; \<open>None\<close> when the loop ends without a match.
\<close>

fun deleteLoop :: "int \<Rightarrow> store \<Rightarrow> store option" where
  "deleteLoop i [] = None"
| "deleteLoop i (student # rest) =
     (if ID student = i then Some rest else map_option ((#) student) (deleteLoop i rest))"

definition deleteStudent :: "'b stdlib \<Rightarrow> 'b request \<Rightarrow> store \<Rightarrow> response \<times> store" where
  "deleteStudent L r students =
     (case Atoi L (pathValueId r) of
        None \<Rightarrow> (httpError ''Invalid ID'' 400, students)
      | Some i \<Rightarrow>
          (case deleteLoop i students of
             Some students' \<Rightarrow> (\<lparr>status = 204, respBody = NoBody\<rparr>, students')
           | None \<Rightarrow> (httpError ''Student not found'' 404, students)))"

text \<open>The handler registered for \<^verbatim>\<open>/students/{id}\<close>.\<close>

definition studentHandler :: "'b stdlib \<Rightarrow> 'b request \<Rightarrow> store \<Rightarrow> response \<times> store" where
  "studentHandler L r students =
     (if reqMethod r = ''GET'' then (getStudent L r students, students)
      else if reqMethod r = ''PUT'' then putStudent L r students
      else if reqMethod r = ''DELETE'' then deleteStudent L r students
      else (httpError ''Method not allowed'' 405, students))"

text \<open>
  The two routes of the mux that touch the store without an outbound call, and a run
  of the server on a sequence of requests, starting from a given store.
\<close>

datatype route = Students | StudentById

definition serve :: "'b stdlib \<Rightarrow> route \<times> 'b request \<Rightarrow> store \<Rightarrow> response \<times> store" where
  "serve L rr students =
     (case fst rr of
        Students \<Rightarrow> studentsHandler L (snd rr) students
      | StudentById \<Rightarrow> studentHandler L (snd rr) students)"

fun run :: "'b stdlib \<Rightarrow> (route \<times> 'b request) list \<Rightarrow> store \<Rightarrow> store" where
  "run L [] students = students"
| "run L (rr # rest) students = run L rest (snd (serve L rr students))"

section \<open>A concrete standard library for examples\<close>

text \<open>
  The theorems below hold for every behaviour of the three library calls. The examples
  run the handlers with the following one. A body is what the client sent, already
  structured: a JSON object whose members \<^verbatim>\<open>id\<close>, \<^verbatim>\<open>name\<close>, \<^verbatim>\<open>age\<close> and
  \<^verbatim>\<open>email\<close> are each absent or a JSON value, a list of form fields, form-encoded bytes
  with an invalid percent escape, or bytes that are neither JSON nor a form.
\<close>

datatype jvalue = JInt int | JString string | JNull | JOther

datatype payload =
  JSONObject "jvalue option" "jvalue option" "jvalue option" "jvalue option"
| FormData "(string \<times> string) list"
| BadForm
| Garbage

text \<open>
  \<^verbatim>\<open>encoding/json\<close> on one member of the object, from the member and the current
  value of the struct field to the new value: an absent member and \<^verbatim>\<open>null\<close> keep the
  field, an integer literal within the 64-bit range sets an \<^verbatim>\<open>int\<close> field, a string
  sets a \<^verbatim>\<open>string\<close> field, and every other value (\<open>JOther\<close> stands for fractions,
  booleans, arrays and objects) is an error.
\<close>

fun intField :: "jvalue option \<Rightarrow> int \<Rightarrow> int option" where
  "intField None cur = Some cur"
| "intField (Some JNull) cur = Some cur"
| "intField (Some (JInt v)) cur = (if - (2 ^ 63) \<le> v \<and> v < 2 ^ 63 then Some v else None)"
| "intField (Some (JString v)) cur = None"
| "intField (Some JOther) cur = None"

fun stringField :: "jvalue option \<Rightarrow> string \<Rightarrow> string option" where
  "stringField None cur = Some cur"
| "stringField (Some JNull) cur = Some cur"
| "stringField (Some (JString v)) cur = Some v"
| "stringField (Some (JInt v)) cur = None"
| "stringField (Some JOther) cur = None"

text \<open>Decoding fails when a member fails, and on a body that is not JSON.\<close>

fun exDecode :: "payload \<Rightarrow> Student \<Rightarrow> Student option" where
  "exDecode (JSONObject i n a e) s =
     (case intField i (ID s) of
        None \<Rightarrow> None
      | Some i' \<Rightarrow>
          (case stringField n (Name s) of
             None \<Rightarrow> None
           | Some n' \<Rightarrow>
               (case intField a (Age s) of
                  None \<Rightarrow> None
                | Some a' \<Rightarrow>
                    (case stringField e (Email s) of
                       None \<Rightarrow> None
                     | Some e' \<Rightarrow> Some \<lparr>ID = i', Name = n', Age = a', Email = e'\<rparr>))))"
| "exDecode (FormData kvs) s = None"
| "exDecode BadForm s = None"
| "exDecode Garbage s = None"

text \<open>
  A form value is the first value of the key, or the empty string. The example requests
  have no query string, so the form values come from the body alone.
\<close>

fun exFormValue :: "payload \<Rightarrow> string \<Rightarrow> string" where
  "exFormValue (FormData kvs) k = (case map_of kvs k of None \<Rightarrow> [] | Some v \<Rightarrow> v)"
| "exFormValue (JSONObject i n a e) k = []"
| "exFormValue BadForm k = []"
| "exFormValue Garbage k = []"

text \<open>The media type of a header value: what stands before the first semicolon.\<close>

definition mediaType :: "string \<Rightarrow> string" where
  "mediaType ct = takeWhile (\<lambda>c. c \<noteq> CHR '';'') ct"

text \<open>
  \<^verbatim>\<open>ParseForm\<close> reads the body only when the media type of the request is
  \<^verbatim>\<open>application/x-www-form-urlencoded\<close>, and fails when the body then has an invalid
  escape; under every other media type the body is left unread and the form is empty.
  (Header values in the examples are lower-case with well-formed parameters.)
\<close>

definition exParseForm :: "payload request \<Rightarrow> (string \<Rightarrow> string) option" where
  "exParseForm r =
     (if mediaType (contentType r) = ''application/x-www-form-urlencoded'' then
        (case reqBody r of
           BadForm \<Rightarrow> None
         | FormData kvs \<Rightarrow> Some (exFormValue (FormData kvs))
         | JSONObject i n a e \<Rightarrow> Some (exFormValue (JSONObject i n a e))
         | Garbage \<Rightarrow> Some (exFormValue Garbage))
      else Some (\<lambda>k. []))"

text \<open>
  Decimal integers with an optional sign, within the 64-bit range, as
  \<^verbatim>\<open>strconv.Atoi\<close> accepts them.
\<close>

definition isDigit :: "char \<Rightarrow> bool" where
  "isDigit c = (48 \<le> (of_char c :: nat) \<and> (of_char c :: nat) \<le> 57)"

fun decimal :: "string \<Rightarrow> int \<Rightarrow> int option" where
  "decimal [] n = Some n"
| "decimal (c # cs) n =
     (if isDigit c then decimal cs (n * 10 + (int (of_char c) - 48)) else None)"

definition exAtoi :: "string \<Rightarrow> int option" where
  "exAtoi s =
     (case s of
        [] \<Rightarrow> None
      | c # cs \<Rightarrow>
          (let ds = (if c = CHR ''-'' \<or> c = CHR ''+'' then cs else s) in
           if ds = [] then None
           else (case decimal ds 0 of
                   None \<Rightarrow> None
                 | Some n \<Rightarrow>
                     (let v = (if c = CHR ''-'' then - n else n) in
                      if - (2 ^ 63) \<le> v \<and> v < 2 ^ 63 then Some v else None))))"

definition exLib :: "payload stdlib" where
  "exLib = \<lparr>Atoi = exAtoi, Decode = exDecode, ParseForm = exParseForm\<rparr>"

text \<open>Requests as a client would send them.\<close>

definition POST_json :: "payload \<Rightarrow> route \<times> payload request" where
  "POST_json b =
     (Students, \<lparr>reqMethod = ''POST'', pathValueId = [], contentType = ''application/json'',
                 reqBody = b\<rparr>)"

definition POST_form :: "payload \<Rightarrow> route \<times> payload request" where
  "POST_form b =
     (Students, \<lparr>reqMethod = ''POST'', pathValueId = [],
                 contentType = ''application/x-www-form-urlencoded'', reqBody = b\<rparr>)"

definition GET_id :: "string \<Rightarrow> route \<times> payload request" where
  "GET_id p =
     (StudentById, \<lparr>reqMethod = ''GET'', pathValueId = p, contentType = [], reqBody = Garbage\<rparr>)"

definition PUT_json :: "string \<Rightarrow> payload \<Rightarrow> route \<times> payload request" where
  "PUT_json p b =
     (StudentById, \<lparr>reqMethod = ''PUT'', pathValueId = p, contentType = ''application/json'',
                    reqBody = b\<rparr>)"

definition DELETE_id :: "string \<Rightarrow> route \<times> payload request" where
  "DELETE_id p =
     (StudentById, \<lparr>reqMethod = ''DELETE'', pathValueId = p, contentType = [],
                    reqBody = Garbage\<rparr>)"

text \<open>Records for the examples.\<close>

definition exA :: Student where
  "exA = \<lparr>ID = 1, Name = ''A'', Age = 20, Email = ''a@b.com''\<rparr>"

definition exB :: Student where
  "exB = \<lparr>ID = 2, Name = ''B'', Age = 21, Email = ''b@b.com''\<rparr>"

definition exC :: Student where
  "exC = \<lparr>ID = 2, Name = ''C'', Age = 22, Email = ''c@b.com''\<rparr>"

definition exZ :: Student where
  "exZ = \<lparr>ID = 2, Name = ''Z'', Age = 30, Email = ''z@b.com''\<rparr>"

text \<open>A JSON body for \<open>exZ\<close> that also carries an id of its own, 7.\<close>

definition bodyZ :: payload where
  "bodyZ =
     JSONObject (Some (JInt 7)) (Some (JString ''Z'')) (Some (JInt 30))
       (Some (JString ''z@b.com''))"



text \<open>A JSON body with an empty name.\<close>

definition bodyNoName :: payload where
  "bodyNoName =
     JSONObject None (Some (JString [])) (Some (JInt 20)) (Some (JString ''a@b.com''))"

text \<open>JSON bodies with age 0, and with age 151 and an empty email.\<close>

definition bodyAge0 :: payload where
  "bodyAge0 =
     JSONObject None (Some (JString ''A'')) (Some (JInt 0)) (Some (JString ''a@b.com''))"

definition bodyAge151 :: payload where
  "bodyAge151 =
     JSONObject None (Some (JString ''A'')) (Some (JInt 151)) (Some (JString []))"




text \<open>A PUT with a form body, and a POST whose header says \<^verbatim>\<open>text/plain\<close>.\<close>

definition PUT_form :: "string \<Rightarrow> payload \<Rightarrow> route \<times> payload request" where
  "PUT_form p b =
     (StudentById, \<lparr>reqMethod = ''PUT'', pathValueId = p,
                    contentType = ''application/x-www-form-urlencoded'', reqBody = b\<rparr>)"

definition POST_plain :: "payload \<Rightarrow> route \<times> payload request" where
  "POST_plain b =
     (Students, \<lparr>reqMethod = ''POST'', pathValueId = [], contentType = ''text/plain'',
                 reqBody = b\<rparr>)"

text \<open>A POST that carries a JSON object under a content type with a parameter.\<close>

definition jsonUtf8 :: "payload request" where
  "jsonUtf8 = \<lparr>reqMethod = ''POST'', pathValueId = [],
               contentType = ''application/json; charset=utf-8'', reqBody = bodyZ\<rparr>"

text \<open>Form bodies for the records \<open>exA\<close>, \<open>exB\<close> and \<open>exC\<close>.\<close>

definition formA :: payload where
  "formA = FormData [(''name'', ''A''), (''age'', ''20''), (''email'', ''a@b.com'')]"

definition formB :: payload where
  "formB = FormData [(''name'', ''B''), (''age'', ''21''), (''email'', ''b@b.com'')]"

definition formC :: payload where
  "formC = FormData [(''name'', ''C''), (''age'', ''22''), (''email'', ''c@b.com'')]"

text \<open>The ids of a store that has seen no delete: \<open>1, 2, ..., length students\<close>.\<close>

definition sequentialIds :: "store \<Rightarrow> bool" where
  "sequentialIds students = (map ID students = map int [1 ..< Suc (length students)])"

section \<open>Facts about the three loops\<close>

lemma findStudent_absent:
  "\<forall>s\<in>set students. ID s \<noteq> i \<Longrightarrow> findStudent i students = None"
  by (induction students) auto

lemma updateLoop_absent:
  "\<forall>s\<in>set students. ID s \<noteq> ID u \<Longrightarrow> updateLoop u students = None"
  by (induction students) auto

lemma deleteLoop_absent:
  "\<forall>s\<in>set students. ID s \<noteq> i \<Longrightarrow> deleteLoop i students = None"
  by (induction students) auto

lemma findStudent_first:
  "\<forall>x\<in>set pre. ID x \<noteq> i \<Longrightarrow> ID s = i \<Longrightarrow> findStudent i (pre @ s # post) = Some s"
  by (induction pre) auto

lemma updateLoop_first:
  "\<forall>x\<in>set pre. ID x \<noteq> ID u \<Longrightarrow> ID s = ID u \<Longrightarrow>
   updateLoop u (pre @ s # post) = Some (pre @ u # post)"
  by (induction pre) auto

lemma deleteLoop_first:
  "\<forall>x\<in>set pre. ID x \<noteq> i \<Longrightarrow> ID s = i \<Longrightarrow>
   deleteLoop i (pre @ s # post) = Some (pre @ post)"
  by (induction pre) auto

text \<open>A store that holds the id splits at the first record that has it.\<close>

lemma first_match_split:
  "\<exists>s\<in>set students. ID s = i \<Longrightarrow>
   \<exists>pre s post. students = pre @ s # post \<and> ID s = i \<and> (\<forall>x\<in>set pre. ID x \<noteq> i)"
proof (induction students)
  case Nil
  then show ?case by simp
next
  case (Cons a students)
  show ?case
  proof (cases "ID a = i")
    case True
    then have "a # students = [] @ a # students \<and> ID a = i \<and> (\<forall>x\<in>set []. ID x \<noteq> i)"
      by simp
    then show ?thesis by blast
  next
    case False
    with Cons.prems have "\<exists>s\<in>set students. ID s = i" by auto
    from Cons.IH [OF this] obtain pre s post where
      h: "students = pre @ s # post" "ID s = i" "\<forall>x\<in>set pre. ID x \<noteq> i" by blast
    with False have
      "a # students = (a # pre) @ s # post \<and> ID s = i \<and> (\<forall>x\<in>set (a # pre). ID x \<noteq> i)"
      by simp
    then show ?thesis by blast
  qed
qed

text \<open>Whatever the body holds, the replacement record of a PUT carries the id of the path.\<close>

lemma decodePut_ID: "decodePut L r i = Inr X \<Longrightarrow> ID X = i"
  by (auto simp: decodePut_def formStudent_def zeroStudent_def Let_def
      split: if_splits option.splits)


text \<open>
  PUT keeps the ids of the store, and POST extends a store with ids \<open>1, ..., n\<close> by
  \<open>n + 1\<close>: as long as nothing is deleted the ids stay \<open>1, ..., n\<close>, hence distinct.
\<close>

lemma updateLoop_ids:
  "updateLoop u students = Some students' \<Longrightarrow> map ID students' = map ID students"
  by (induction students arbitrary: students') (auto split: if_splits)

lemma sequentialIds_append:
  "sequentialIds students \<Longrightarrow> sequentialIds (students @ [s\<lparr>ID := int (length students) + 1\<rparr>])"
  by (simp add: sequentialIds_def)

lemma sequentialIds_updateLoop:
  assumes "sequentialIds students" and "updateLoop u students = Some students'"
  shows "sequentialIds students'"
proof -
  have "map ID students' = map ID students" using assms(2) by (rule updateLoop_ids)
  moreover from this have "length students' = length students" by (rule map_eq_imp_length_eq)
  ultimately show ?thesis using assms(1) by (simp add: sequentialIds_def)
qed

lemma studentsHandler_sequentialIds:
  "sequentialIds students \<Longrightarrow> sequentialIds (snd (studentsHandler L r students))"
  by (auto simp: studentsHandler_def postStudents_def Let_def sequentialIds_append
      split: sum.splits option.splits)

lemma studentHandler_sequentialIds:
  "sequentialIds students \<Longrightarrow> reqMethod r \<noteq> ''DELETE'' \<Longrightarrow>
   sequentialIds (snd (studentHandler L r students))"
  by (auto simp: studentHandler_def putStudent_def sequentialIds_updateLoop
      split: sum.splits option.splits)

lemma sequentialIds_distinct: "sequentialIds students \<Longrightarrow> distinct (map ID students)"
  by (simp add: sequentialIds_def distinct_map)

lemma run_without_delete_sequential:
  "sequentialIds students \<Longrightarrow> \<forall>rr\<in>set reqs. reqMethod (snd rr) \<noteq> ''DELETE'' \<Longrightarrow>
   sequentialIds (run L reqs students)"
proof (induction reqs arbitrary: students)
  case Nil
  then show ?case by simp
next
  case (Cons rr reqs)
  have "sequentialIds (snd (serve L rr students))"
    using Cons.prems
    by (cases "fst rr")
      (simp_all add: serve_def studentsHandler_sequentialIds studentHandler_sequentialIds)
  with Cons show ?case by simp
qed

text \<open>In a store with distinct ids, the id that DELETE removed is gone.\<close>

lemma delete_then_find_distinct:
  "distinct (map ID students) \<Longrightarrow> deleteLoop i students = Some students' \<Longrightarrow>
   findStudent i students' = None \<and> i \<notin> ID ` set students'"
proof (induction students arbitrary: students')
  case Nil
  then show ?case by simp
next
  case (Cons a students)
  show ?case
  proof (cases "ID a = i")
    case True
    with Cons.prems have eq: "students' = students" and "i \<notin> ID ` set students" by simp_all
    then have "\<forall>s\<in>set students. ID s \<noteq> i" by blast
    then have "findStudent i students = None" by (rule findStudent_absent)
    with eq \<open>i \<notin> ID ` set students\<close> show ?thesis by simp
  next
    case False
    with Cons.prems obtain rest where
      r: "deleteLoop i students = Some rest" "students' = a # rest" by auto
    from Cons.IH [OF _ r(1)] Cons.prems(1) have "findStudent i rest = None \<and> i \<notin> ID ` set rest"
      by simp
    with False r(2) show ?thesis by auto
  qed
qed

section \<open>Create\<close>



text \<open>
  C4. A POST whose candidate fails validation answers 400 with the validator's message
  and returns the store as it was: nothing is appended, and the next create still gets
  the id it would have got.
\<close>

theorem create_invalid_leaves_store:
  assumes "reqMethod r = ''POST''"
    and "decodePost L r = Inr cand"
    and "validateStudent cand = Some msg"
  shows "studentsHandler L r students = (httpError msg 400, students)
         \<and> status (fst (studentsHandler L r students)) = 400
         \<and> snd (studentsHandler L r students) = students"
  using assms
  by (simp add: studentsHandler_def postStudents_def httpError_def)

theorem create_invalid_leaves_store_witness:
  "reqMethod (snd (POST_json bodyNoName)) = ''POST''
   \<and> decodePost exLib (snd (POST_json bodyNoName))
     = Inr \<lparr>ID = 0, Name = [], Age = 20, Email = ''a@b.com''\<rparr>
   \<and> validateStudent \<lparr>ID = 0, Name = [], Age = 20, Email = ''a@b.com''\<rparr>
     = Some ''name is required''
   \<and> studentsHandler exLib
       (snd (POST_json bodyNoName))
       [\<lparr>ID = 1, Name = ''A'', Age = 20, Email = ''a@b.com''\<rparr>]
     = (\<lparr>status = 400, respBody = Text ''name is required''\<rparr>,
        [\<lparr>ID = 1, Name = ''A'', Age = 20, Email = ''a@b.com''\<rparr>])"
proof -
  let ?r = "snd (POST_json bodyNoName)"
  let ?c = "\<lparr>ID = 0, Name = [], Age = 20, Email = ''a@b.com''\<rparr>"
  have m: "reqMethod ?r = ''POST''" by (simp add: POST_json_def)
  have d: "decodePost exLib ?r = Inr ?c"
    by (simp add: POST_json_def decodePost_def exLib_def zeroStudent_def bodyNoName_def)
  have v: "validateStudent ?c = Some ''name is required''" by (simp add: validateStudent_def)
  show ?thesis
    using m d v
      create_invalid_leaves_store
        [OF m d v, of "[\<lparr>ID = 1, Name = ''A'', Age = 20, Email = ''a@b.com''\<rparr>]"]
    by (simp add: httpError_def)
qed

section \<open>Validation in create and update\<close>

text \<open>
  C3. \<^verbatim>\<open>validateStudent\<close> reports the first failing rule of the list: name non-empty,
  age in \<open>[1, 150]\<close>, email non-empty. POST and PUT both call it on the decoded record and
  answer 400 with its message, leaving the store as it was. A record with age 0 or 151
  never passes.
\<close>

theorem validation_first_failure:
  "validateStudent s = firstFailing (validationRules s)
   \<and> (decodePost L r = Inr s \<longrightarrow> validateStudent s = Some msg \<longrightarrow>
        postStudents L r students = (httpError msg 400, students))
   \<and> (Atoi L (pathValueId r) = Some i \<longrightarrow> decodePut L r i = Inr s \<longrightarrow>
        validateStudent s = Some msg \<longrightarrow>
        putStudent L r students = (httpError msg 400, students))
   \<and> (Age s = 0 \<or> Age s = 151 \<longrightarrow>
        validateStudent s \<noteq> None
        \<and> (decodePost L r = Inr s \<longrightarrow> status (fst (postStudents L r students)) = 400)
        \<and> (Atoi L (pathValueId r) = Some i \<longrightarrow> decodePut L r i = Inr s \<longrightarrow>
             status (fst (putStudent L r students)) = 400))"
  by (auto simp: validateStudent_def validationRules_def postStudents_def putStudent_def
      httpError_def)

theorem validation_first_failure_witness:
  "decodePost exLib (snd (POST_json bodyAge0))
     = Inr \<lparr>ID = 0, Name = ''A'', Age = 0, Email = ''a@b.com''\<rparr>
   \<and> validateStudent \<lparr>ID = 0, Name = ''A'', Age = 0, Email = ''a@b.com''\<rparr>
     = Some ''age must be between 1 and 150''
   \<and> postStudents exLib (snd (POST_json bodyAge0)) []
     = (\<lparr>status = 400, respBody = Text ''age must be between 1 and 150''\<rparr>, [])
   \<and> Atoi exLib (pathValueId (snd (PUT_json ''1'' bodyAge151)))
     = Some 1
   \<and> decodePut exLib (snd (PUT_json ''1'' bodyAge151)) 1
     = Inr \<lparr>ID = 1, Name = ''A'', Age = 151, Email = []\<rparr>
   \<and> validateStudent \<lparr>ID = 1, Name = ''A'', Age = 151, Email = []\<rparr>
     = Some ''age must be between 1 and 150''
   \<and> putStudent exLib (snd (PUT_json ''1'' bodyAge151)) []
     = (\<lparr>status = 400, respBody = Text ''age must be between 1 and 150''\<rparr>, [])"
proof -
  let ?p = "snd (POST_json bodyAge0)"
  let ?c = "\<lparr>ID = 0, Name = ''A'', Age = 0, Email = ''a@b.com''\<rparr>"
  let ?u = "snd (PUT_json ''1'' bodyAge151)"
  let ?d = "\<lparr>ID = 1, Name = ''A'', Age = 151, Email = []\<rparr>"
  let ?m = "''age must be between 1 and 150''"
  have a: "Age ?c = 0 \<or> Age ?c = 151" by simp
  have dp: "decodePost exLib ?p = Inr ?c"
    by (simp add: POST_json_def decodePost_def exLib_def zeroStudent_def bodyAge0_def)
  have vp: "validateStudent ?c = Some ?m"
    using a validation_first_failure [of ?c exLib ?p ?m "[]" 1]
    by (simp add: validationRules_def)
  have at: "Atoi exLib (pathValueId ?u) = Some 1"
    by (simp add: PUT_json_def exLib_def exAtoi_def isDigit_def)
  have du: "decodePut exLib ?u 1 = Inr ?d"
    by (simp add: PUT_json_def decodePut_def exLib_def zeroStudent_def bodyAge151_def)
  have vu: "validateStudent ?d = Some ?m"
    using validation_first_failure [of ?d exLib ?u ?m "[]" 1]
    by (simp add: validationRules_def)
  have post: "postStudents exLib ?p [] = (httpError ?m 400, [])"
    using dp vp validation_first_failure [of ?c exLib ?p ?m "[]" 1] by blast
  have put: "putStudent exLib ?u [] = (httpError ?m 400, [])"
    using at du vu validation_first_failure [of ?d exLib ?u ?m "[]" 1] by blast
  show ?thesis
    using dp vp at du vu post put by (simp add: httpError_def)
qed

section \<open>Update, lookup and delete by id\<close>

text \<open>
  C5. When the store holds a record with id \<open>i\<close> and the PUT body yields a replacement
  \<open>X\<close> that passes validation, PUT answers 200 with \<open>X\<close>, a following GET of \<open>i\<close> answers
  200 with the same \<open>X\<close> (its name, age and email), and the id of \<open>X\<close> is \<open>i\<close>.
\<close>

theorem update_then_get_roundtrip:
  assumes "\<exists>s\<in>set students. ID s = i"
    and "reqMethod r = ''PUT''" and "Atoi L (pathValueId r) = Some i"
    and "decodePut L r i = Inr X" and "validateStudent X = None"
    and "reqMethod g = ''GET''" and "Atoi L (pathValueId g) = Some i"
  shows "fst (studentHandler L r students) = \<lparr>status = 200, respBody = JSONStudent X\<rparr>
         \<and> fst (studentHandler L g (snd (studentHandler L r students)))
             = \<lparr>status = 200, respBody = JSONStudent X\<rparr>
         \<and> ID X = i"
proof -
  from first_match_split [OF assms(1)] obtain pre s post where
    sp: "students = pre @ s # post" "ID s = i" "\<forall>x\<in>set pre. ID x \<noteq> i" by blast
  have idX: "ID X = i" using assms(4) by (rule decodePut_ID)
  have up: "updateLoop X students = Some (pre @ X # post)"
    using sp idX by (simp add: updateLoop_first)
  have put: "studentHandler L r students =
               (\<lparr>status = 200, respBody = JSONStudent X\<rparr>, pre @ X # post)"
    using assms(2-5) up by (simp add: studentHandler_def putStudent_def)
  have fd: "findStudent i (pre @ X # post) = Some X"
    using sp(3) idX by (simp add: findStudent_first)
  have get: "fst (studentHandler L g (pre @ X # post)) = \<lparr>status = 200, respBody = JSONStudent X\<rparr>"
    using assms(6,7) fd by (simp add: studentHandler_def getStudent_def)
  show ?thesis using put get idX by simp
qed

theorem update_then_get_roundtrip_witness:
  "(\<exists>s\<in>set [exA, exB]. ID s = 2)
   \<and> decodePut exLib (snd (PUT_json ''2'' bodyZ)) 2 = Inr exZ
   \<and> validateStudent exZ = None
   \<and> serve exLib (PUT_json ''2'' bodyZ) [exA, exB]
       = (\<lparr>status = 200, respBody = JSONStudent exZ\<rparr>, [exA, exZ])
   \<and> fst (serve exLib (GET_id ''2'') (snd (serve exLib (PUT_json ''2'' bodyZ) [exA, exB])))
       = \<lparr>status = 200, respBody = JSONStudent exZ\<rparr>"
proof -
  let ?r = "snd (PUT_json ''2'' bodyZ)"
  let ?g = "snd (GET_id ''2'')"
  have e: "\<exists>s\<in>set [exA, exB]. ID s = 2" by (simp add: exB_def)
  have mr: "reqMethod ?r = ''PUT''" by (simp add: PUT_json_def)
  have ar: "Atoi exLib (pathValueId ?r) = Some 2"
    by (simp add: PUT_json_def exLib_def exAtoi_def isDigit_def)
  have d: "decodePut exLib ?r 2 = Inr exZ"
    by (simp add: PUT_json_def decodePut_def exLib_def zeroStudent_def bodyZ_def exZ_def)
  have v: "validateStudent exZ = None" by (simp add: validateStudent_def exZ_def)
  have mg: "reqMethod ?g = ''GET''" by (simp add: GET_id_def)
  have ag: "Atoi exLib (pathValueId ?g) = Some 2"
    by (simp add: GET_id_def exLib_def exAtoi_def isDigit_def)
  have put: "serve exLib (PUT_json ''2'' bodyZ) [exA, exB]
               = (\<lparr>status = 200, respBody = JSONStudent exZ\<rparr>, [exA, exZ])"
    using mr ar d v
    by (simp add: serve_def PUT_json_def studentHandler_def putStudent_def exA_def exB_def exZ_def)
  show ?thesis
    using e d v put update_then_get_roundtrip [OF e mr ar d v mg ag]
    by (simp add: serve_def PUT_json_def GET_id_def)
qed

text \<open>
  C6. When no record of the store has id \<open>i\<close>, GET, PUT (with a replacement that passes
  validation) and DELETE of \<open>i\<close> each answer 404 and return the store as it was.
\<close>

theorem missing_id_not_found:
  assumes "Atoi L (pathValueId r) = Some i" and "\<forall>s\<in>set students. ID s \<noteq> i"
  shows "(reqMethod r = ''GET'' \<longrightarrow>
            studentHandler L r students = (httpError ''Student not found'' 404, students))
       \<and> (reqMethod r = ''PUT'' \<longrightarrow> decodePut L r i = Inr X \<longrightarrow> validateStudent X = None \<longrightarrow>
            studentHandler L r students = (httpError ''Student not found'' 404, students))
       \<and> (reqMethod r = ''DELETE'' \<longrightarrow>
            studentHandler L r students = (httpError ''Student not found'' 404, students))"
proof -
  have f: "findStudent i students = None" using assms(2) by (rule findStudent_absent)
  have d: "deleteLoop i students = None" using assms(2) by (rule deleteLoop_absent)
  have u: "decodePut L r i = Inr X \<Longrightarrow> updateLoop X students = None"
    using assms(2) decodePut_ID [of L r i X] by (simp add: updateLoop_absent)
  show ?thesis
    using assms(1) f d u
    by (simp add: studentHandler_def getStudent_def putStudent_def deleteStudent_def)
qed

theorem missing_id_not_found_witness:
  "Atoi exLib ''5'' = Some 5 \<and> ID exA \<noteq> 5 \<and> ID exB \<noteq> 5
   \<and> decodePut exLib (snd (PUT_json ''5'' bodyZ)) 5 = Inr (exZ\<lparr>ID := 5\<rparr>)
   \<and> validateStudent (exZ\<lparr>ID := 5\<rparr>) = None
   \<and> serve exLib (GET_id ''5'') [exA, exB]
       = (\<lparr>status = 404, respBody = Text ''Student not found''\<rparr>, [exA, exB])
   \<and> serve exLib (PUT_json ''5'' bodyZ) [exA, exB]
       = (\<lparr>status = 404, respBody = Text ''Student not found''\<rparr>, [exA, exB])
   \<and> serve exLib (DELETE_id ''5'') [exA, exB]
       = (\<lparr>status = 404, respBody = Text ''Student not found''\<rparr>, [exA, exB])"
proof -
  let ?g = "snd (GET_id ''5'')"
  let ?u = "snd (PUT_json ''5'' bodyZ)"
  let ?d = "snd (DELETE_id ''5'')"
  have a: "Atoi exLib ''5'' = Some 5" by (simp add: exLib_def exAtoi_def isDigit_def)
  have n: "\<forall>s\<in>set [exA, exB]. ID s \<noteq> 5" by (simp add: exA_def exB_def)
  have dp: "decodePut exLib ?u 5 = Inr (exZ\<lparr>ID := 5\<rparr>)"
    by (simp add: PUT_json_def decodePut_def exLib_def zeroStudent_def bodyZ_def exZ_def)
  have v: "validateStudent (exZ\<lparr>ID := 5\<rparr>) = None" by (simp add: validateStudent_def exZ_def)
  have ag: "Atoi exLib (pathValueId ?g) = Some 5" using a by (simp add: GET_id_def)
  have au: "Atoi exLib (pathValueId ?u) = Some 5" using a by (simp add: PUT_json_def)
  have ad: "Atoi exLib (pathValueId ?d) = Some 5" using a by (simp add: DELETE_id_def)
  have g: "studentHandler exLib ?g [exA, exB] = (httpError ''Student not found'' 404, [exA, exB])"
    using missing_id_not_found [OF ag n] by (simp add: GET_id_def)
  have u: "studentHandler exLib ?u [exA, exB] = (httpError ''Student not found'' 404, [exA, exB])"
    using missing_id_not_found [OF au n, of "exZ\<lparr>ID := 5\<rparr>"] dp v by (simp add: PUT_json_def)
  have d: "studentHandler exLib ?d [exA, exB] = (httpError ''Student not found'' 404, [exA, exB])"
    using missing_id_not_found [OF ad n] by (simp add: DELETE_id_def)
  show ?thesis
    using a n dp v g u d
    by (simp add: serve_def GET_id_def PUT_json_def DELETE_id_def httpError_def)
qed

text \<open>
  C10. Let the store be \<open>pre @ s # post\<close> where \<open>s\<close> is the first record with id \<open>i\<close>. GET
  answers with \<open>s\<close>; PUT puts the replacement in the place of \<open>s\<close>; DELETE removes \<open>s\<close>
  alone. \<open>pre\<close> and \<open>post\<close> stay as they were, in their order, also when \<open>post\<close> holds
  further records with id \<open>i\<close>.
\<close>

theorem first_match_operated_on:
  assumes "students = pre @ s # post" and "\<forall>x\<in>set pre. ID x \<noteq> i" and "ID s = i"
    and "Atoi L (pathValueId r) = Some i"
  shows "(reqMethod r = ''GET'' \<longrightarrow>
            studentHandler L r students = (\<lparr>status = 200, respBody = JSONStudent s\<rparr>, students))
       \<and> (reqMethod r = ''PUT'' \<longrightarrow> decodePut L r i = Inr X \<longrightarrow> validateStudent X = None \<longrightarrow>
            studentHandler L r students =
              (\<lparr>status = 200, respBody = JSONStudent X\<rparr>, pre @ X # post))
       \<and> (reqMethod r = ''DELETE'' \<longrightarrow>
            studentHandler L r students = (\<lparr>status = 204, respBody = NoBody\<rparr>, pre @ post))"
proof -
  have f: "findStudent i students = Some s" using assms(1-3) by (simp add: findStudent_first)
  have d: "deleteLoop i students = Some (pre @ post)"
    using assms(1-3) by (simp add: deleteLoop_first)
  have u: "decodePut L r i = Inr X \<Longrightarrow> updateLoop X students = Some (pre @ X # post)"
    using assms(1-3) decodePut_ID [of L r i X] by (simp add: updateLoop_first)
  show ?thesis
    using assms(4) f d u
    by (simp add: studentHandler_def getStudent_def putStudent_def deleteStudent_def)
qed

theorem first_match_operated_on_witness:
  "[exA, exB, exC] = [exA] @ exB # [exC] \<and> ID exA \<noteq> 2 \<and> ID exB = 2
   \<and> ID exC = 2
   \<and> Atoi exLib ''2'' = Some 2
   \<and> decodePut exLib (snd (PUT_json ''2'' bodyZ)) 2 = Inr exZ
   \<and> validateStudent exZ = None
   \<and> serve exLib (GET_id ''2'') [exA, exB, exC]
       = (\<lparr>status = 200, respBody = JSONStudent exB\<rparr>, [exA, exB, exC])
   \<and> serve exLib (PUT_json ''2'' bodyZ) [exA, exB, exC]
       = (\<lparr>status = 200, respBody = JSONStudent exZ\<rparr>, [exA, exZ, exC])
   \<and> serve exLib (DELETE_id ''2'') [exA, exB, exC]
       = (\<lparr>status = 204, respBody = NoBody\<rparr>, [exA, exC])"
proof -
  let ?g = "snd (GET_id ''2'')"
  let ?u = "snd (PUT_json ''2'' bodyZ)"
  let ?d = "snd (DELETE_id ''2'')"
  have sp: "[exA, exB, exC] = [exA] @ exB # [exC]" by simp
  have pre: "\<forall>x\<in>set [exA]. ID x \<noteq> 2" by (simp add: exA_def)
  have b: "ID exB = 2" by (simp add: exB_def)
  have c: "ID exC = 2" by (simp add: exC_def)
  have a: "Atoi exLib ''2'' = Some 2" by (simp add: exLib_def exAtoi_def isDigit_def)
  have dp: "decodePut exLib ?u 2 = Inr exZ"
    by (simp add: PUT_json_def decodePut_def exLib_def zeroStudent_def bodyZ_def exZ_def)
  have v: "validateStudent exZ = None" by (simp add: validateStudent_def exZ_def)
  have ag: "Atoi exLib (pathValueId ?g) = Some 2" using a by (simp add: GET_id_def)
  have au: "Atoi exLib (pathValueId ?u) = Some 2" using a by (simp add: PUT_json_def)
  have ad: "Atoi exLib (pathValueId ?d) = Some 2" using a by (simp add: DELETE_id_def)
  have g: "studentHandler exLib ?g [exA, exB, exC]
             = (\<lparr>status = 200, respBody = JSONStudent exB\<rparr>, [exA, exB, exC])"
    using first_match_operated_on [OF sp pre b ag] by (simp add: GET_id_def)
  have u: "studentHandler exLib ?u [exA, exB, exC]
             = (\<lparr>status = 200, respBody = JSONStudent exZ\<rparr>, [exA, exZ, exC])"
    using first_match_operated_on [OF sp pre b au, of exZ] dp v by (simp add: PUT_json_def)
  have d: "studentHandler exLib ?d [exA, exB, exC]
             = (\<lparr>status = 204, respBody = NoBody\<rparr>, [exA, exC])"
    using first_match_operated_on [OF sp pre b ad] by (simp add: DELETE_id_def)
  show ?thesis
    using sp pre b c a dp v g u d
    by (simp add: serve_def GET_id_def PUT_json_def DELETE_id_def)
qed

section \<open>Request bodies\<close>

text \<open>
  C8, as the specification states it, fails on two requests. A PUT to
  \<^verbatim>\<open>/students/abc\<close> with the header \<^verbatim>\<open>application/json\<close> is answered 400
  "Invalid ID" whether its body is a JSON object or not JSON at all: the body is never
  decoded. A POST with the header \<^verbatim>\<open>text/plain\<close> and a form-encoded body is answered
  400 "Age is required", where the same body under the form media type creates the
  record: \<^verbatim>\<open>ParseForm\<close> does not read a body of another media type.
\<close>

theorem content_type_claim_counterexample:
  "serve exLib (PUT_json ''abc'' bodyZ) [exA, exB]
     = (\<lparr>status = 400, respBody = Text ''Invalid ID''\<rparr>, [exA, exB])
   \<and> serve exLib (PUT_json ''abc'' Garbage) [exA, exB]
     = (\<lparr>status = 400, respBody = Text ''Invalid ID''\<rparr>, [exA, exB])
   \<and> serve exLib (PUT_json ''2'' Garbage) [exA, exB]
     = (\<lparr>status = 400, respBody = Text ''Invalid JSON data''\<rparr>, [exA, exB])
   \<and> serve exLib (POST_plain formA) []
     = (\<lparr>status = 400, respBody = Text ''Age is required''\<rparr>, [])
   \<and> serve exLib (POST_form formA) [] = (\<lparr>status = 201, respBody = JSONStudent exA\<rparr>, [exA])"
  by code_simp

text \<open>
  C8, amended. A POST, and a PUT whose path id is an integer, hand the body to the
  JSON decoder exactly when the header is the string \<open>application/json\<close>: the answer is
  then 400 "Invalid JSON data" when the decoder fails and otherwise what validation and
  the store make of the decoded record. Under every other header value (also
  \<open>application/json; charset=utf-8\<close>) the decoder is not called: the record is built from
  \<^verbatim>\<open>ParseForm\<close> and the form values \<open>name\<close>, \<open>age\<close> and \<open>email\<close>, with 400 for a
  \<^verbatim>\<open>ParseForm\<close> error, an empty age and an age that is not a number; whether the body
  is read as a form is up to \<^verbatim>\<open>ParseForm\<close>. A PUT whose path id is not an integer is
  answered 400 "Invalid ID" before either branch.
\<close>

theorem content_type_selects_branch:
  "(reqMethod r = ''POST'' \<longrightarrow> contentType r = ''application/json'' \<longrightarrow>
      studentsHandler L r students =
        (case Decode L (reqBody r) zeroStudent of
           None \<Rightarrow> (httpError ''Invalid JSON data'' 400, students)
         | Some c \<Rightarrow>
             (case validateStudent c of
                Some err \<Rightarrow> (httpError err 400, students)
              | None \<Rightarrow>
                  (\<lparr>status = 201,
                    respBody = JSONStudent (c\<lparr>ID := int (length students) + 1\<rparr>)\<rparr>,
                   students @ [c\<lparr>ID := int (length students) + 1\<rparr>]))))
   \<and> (reqMethod r = ''POST'' \<longrightarrow> contentType r \<noteq> ''application/json'' \<longrightarrow>
      studentsHandler L r students =
        (case ParseForm L r of
           None \<Rightarrow> (httpError ''Invalid form data'' 400, students)
         | Some formValue \<Rightarrow>
             if formValue ''age'' = [] then (httpError ''Age is required'' 400, students)
             else
               (case Atoi L (formValue ''age'') of
                  None \<Rightarrow>
                    (httpError (''Invalid age: '' @ formValue ''age'' @ '' (must be a number)'') 400,
                     students)
                | Some age \<Rightarrow>
                    (case validateStudent
                            (zeroStudent\<lparr>Name := formValue ''name'', Age := age,
                                         Email := formValue ''email''\<rparr>) of
                       Some err \<Rightarrow> (httpError err 400, students)
                     | None \<Rightarrow>
                         (\<lparr>status = 201,
                           respBody = JSONStudent
                             \<lparr>ID = int (length students) + 1, Name = formValue ''name'',
                              Age = age, Email = formValue ''email''\<rparr>\<rparr>,
                          students @
                            [\<lparr>ID = int (length students) + 1, Name = formValue ''name'',
                              Age = age, Email = formValue ''email''\<rparr>])))))
   \<and> (reqMethod r = ''PUT'' \<longrightarrow> Atoi L (pathValueId r) = Some i \<longrightarrow>
      contentType r = ''application/json'' \<longrightarrow>
      studentHandler L r students =
        (case Decode L (reqBody r) (zeroStudent\<lparr>ID := i\<rparr>) of
           None \<Rightarrow> (httpError ''Invalid JSON data'' 400, students)
         | Some c \<Rightarrow>
             (case validateStudent (c\<lparr>ID := i\<rparr>) of
                Some err \<Rightarrow> (httpError err 400, students)
              | None \<Rightarrow>
                  (case updateLoop (c\<lparr>ID := i\<rparr>) students of
                     Some students' \<Rightarrow>
                       (\<lparr>status = 200, respBody = JSONStudent (c\<lparr>ID := i\<rparr>)\<rparr>, students')
                   | None \<Rightarrow> (httpError ''Student not found'' 404, students)))))
   \<and> (reqMethod r = ''PUT'' \<longrightarrow> Atoi L (pathValueId r) = Some i \<longrightarrow>
      contentType r \<noteq> ''application/json'' \<longrightarrow>
      studentHandler L r students =
        (case ParseForm L r of
           None \<Rightarrow> (httpError ''Invalid form data'' 400, students)
         | Some formValue \<Rightarrow>
             if formValue ''age'' = [] then (httpError ''Age is required'' 400, students)
             else
               (case Atoi L (formValue ''age'') of
                  None \<Rightarrow>
                    (httpError (''Invalid age: '' @ formValue ''age'' @ '' (must be a number)'') 400,
                     students)
                | Some age \<Rightarrow>
                    (case validateStudent
                            \<lparr>ID = i, Name = formValue ''name'', Age = age,
                             Email = formValue ''email''\<rparr> of
                       Some err \<Rightarrow> (httpError err 400, students)
                     | None \<Rightarrow>
                         (case updateLoop
                                 \<lparr>ID = i, Name = formValue ''name'', Age = age,
                                  Email = formValue ''email''\<rparr> students of
                            Some students' \<Rightarrow>
                              (\<lparr>status = 200,
                                respBody = JSONStudent
                                  \<lparr>ID = i, Name = formValue ''name'', Age = age,
                                   Email = formValue ''email''\<rparr>\<rparr>,
                               students')
                          | None \<Rightarrow> (httpError ''Student not found'' 404, students))))))
   \<and> (reqMethod r = ''PUT'' \<longrightarrow> Atoi L (pathValueId r) = None \<longrightarrow>
      studentHandler L r students = (httpError ''Invalid ID'' 400, students))"
proof -
  have postJ: "reqMethod r = ''POST'' \<Longrightarrow> contentType r = ''application/json'' \<Longrightarrow>
      studentsHandler L r students =
        (case Decode L (reqBody r) zeroStudent of
           None \<Rightarrow> (httpError ''Invalid JSON data'' 400, students)
         | Some c \<Rightarrow>
             (case validateStudent c of
                Some err \<Rightarrow> (httpError err 400, students)
              | None \<Rightarrow>
                  (\<lparr>status = 201,
                    respBody = JSONStudent (c\<lparr>ID := int (length students) + 1\<rparr>)\<rparr>,
                   students @ [c\<lparr>ID := int (length students) + 1\<rparr>])))"
    by (simp add: studentsHandler_def postStudents_def decodePost_def Let_def
        split: option.splits)
  have postF: "reqMethod r = ''POST'' \<Longrightarrow> contentType r \<noteq> ''application/json'' \<Longrightarrow>
      studentsHandler L r students =
        (case ParseForm L r of
           None \<Rightarrow> (httpError ''Invalid form data'' 400, students)
         | Some formValue \<Rightarrow>
             if formValue ''age'' = [] then (httpError ''Age is required'' 400, students)
             else
               (case Atoi L (formValue ''age'') of
                  None \<Rightarrow>
                    (httpError (''Invalid age: '' @ formValue ''age'' @ '' (must be a number)'') 400,
                     students)
                | Some age \<Rightarrow>
                    (case validateStudent
                            (zeroStudent\<lparr>Name := formValue ''name'', Age := age,
                                         Email := formValue ''email''\<rparr>) of
                       Some err \<Rightarrow> (httpError err 400, students)
                     | None \<Rightarrow>
                         (\<lparr>status = 201,
                           respBody = JSONStudent
                             \<lparr>ID = int (length students) + 1, Name = formValue ''name'',
                              Age = age, Email = formValue ''email''\<rparr>\<rparr>,
                          students @
                            [\<lparr>ID = int (length students) + 1, Name = formValue ''name'',
                              Age = age, Email = formValue ''email''\<rparr>]))))"
    by (simp add: studentsHandler_def postStudents_def decodePost_def formStudent_def Let_def
        zeroStudent_def split: option.splits)
  have putJ: "reqMethod r = ''PUT'' \<Longrightarrow> Atoi L (pathValueId r) = Some i \<Longrightarrow>
      contentType r = ''application/json'' \<Longrightarrow>
      studentHandler L r students =
        (case Decode L (reqBody r) (zeroStudent\<lparr>ID := i\<rparr>) of
           None \<Rightarrow> (httpError ''Invalid JSON data'' 400, students)
         | Some c \<Rightarrow>
             (case validateStudent (c\<lparr>ID := i\<rparr>) of
                Some err \<Rightarrow> (httpError err 400, students)
              | None \<Rightarrow>
                  (case updateLoop (c\<lparr>ID := i\<rparr>) students of
                     Some students' \<Rightarrow>
                       (\<lparr>status = 200, respBody = JSONStudent (c\<lparr>ID := i\<rparr>)\<rparr>, students')
                   | None \<Rightarrow> (httpError ''Student not found'' 404, students))))"
    by (simp add: studentHandler_def putStudent_def decodePut_def Let_def
        split: option.splits)
  have putF: "reqMethod r = ''PUT'' \<Longrightarrow> Atoi L (pathValueId r) = Some i \<Longrightarrow>
      contentType r \<noteq> ''application/json'' \<Longrightarrow>
      studentHandler L r students =
        (case ParseForm L r of
           None \<Rightarrow> (httpError ''Invalid form data'' 400, students)
         | Some formValue \<Rightarrow>
             if formValue ''age'' = [] then (httpError ''Age is required'' 400, students)
             else
               (case Atoi L (formValue ''age'') of
                  None \<Rightarrow>
                    (httpError (''Invalid age: '' @ formValue ''age'' @ '' (must be a number)'') 400,
                     students)
                | Some age \<Rightarrow>
                    (case validateStudent
                            \<lparr>ID = i, Name = formValue ''name'', Age = age,
                             Email = formValue ''email''\<rparr> of
                       Some err \<Rightarrow> (httpError err 400, students)
                     | None \<Rightarrow>
                         (case updateLoop
                                 \<lparr>ID = i, Name = formValue ''name'', Age = age,
                                  Email = formValue ''email''\<rparr> students of
                            Some students' \<Rightarrow>
                              (\<lparr>status = 200,
                                respBody = JSONStudent
                                  \<lparr>ID = i, Name = formValue ''name'', Age = age,
                                   Email = formValue ''email''\<rparr>\<rparr>,
                               students')
                          | None \<Rightarrow> (httpError ''Student not found'' 404, students)))))"
    by (simp add: studentHandler_def putStudent_def decodePut_def formStudent_def Let_def
        zeroStudent_def split: option.splits)
  have putBad: "reqMethod r = ''PUT'' \<Longrightarrow> Atoi L (pathValueId r) = None \<Longrightarrow>
      studentHandler L r students = (httpError ''Invalid ID'' 400, students)"
    by (simp add: studentHandler_def putStudent_def)
  show ?thesis using postJ postF putJ putF putBad by blast
qed

theorem content_type_selects_branch_witness:
  "serve exLib (POST_json bodyZ) [exA] = (\<lparr>status = 201, respBody = JSONStudent exZ\<rparr>, [exA, exZ])
   \<and> contentType jsonUtf8 \<noteq> ''application/json''
   \<and> studentsHandler exLib jsonUtf8 [exA]
       = (\<lparr>status = 400, respBody = Text ''Age is required''\<rparr>, [exA])
   \<and> serve exLib (POST_form formB) [exA] = (\<lparr>status = 201, respBody = JSONStudent exB\<rparr>, [exA, exB])
   \<and> serve exLib (PUT_json ''2'' bodyZ) [exA, exB]
       = (\<lparr>status = 200, respBody = JSONStudent exZ\<rparr>, [exA, exZ])
   \<and> serve exLib (PUT_form ''2'' formC) [exA, exB]
       = (\<lparr>status = 200, respBody = JSONStudent exC\<rparr>, [exA, exC])
   \<and> serve exLib (PUT_json ''abc'' bodyZ) [exA, exB]
       = (\<lparr>status = 400, respBody = Text ''Invalid ID''\<rparr>, [exA, exB])"
proof -
  let ?pj = "snd (POST_json bodyZ)" and ?pf = "snd (POST_form formB)"
  let ?uj = "snd (PUT_json ''2'' bodyZ)" and ?uf = "snd (PUT_form ''2'' formC)"
  let ?ub = "snd (PUT_json ''abc'' bodyZ)"
  have two: "exAtoi ''2'' = Some 2" and abc: "exAtoi ''abc'' = None"
    and a21: "exAtoi ''21'' = Some 21" and a22: "exAtoi ''22'' = Some 22"
    by (simp_all add: exAtoi_def isDigit_def)
  have mpj: "reqMethod ?pj = ''POST''" and cpj: "contentType ?pj = ''application/json''"
    by (simp_all add: POST_json_def)
  have mju: "reqMethod jsonUtf8 = ''POST''" and cju: "contentType jsonUtf8 \<noteq> ''application/json''"
    by (simp_all add: jsonUtf8_def)
  have mpf: "reqMethod ?pf = ''POST''" and cpf: "contentType ?pf \<noteq> ''application/json''"
    by (simp_all add: POST_form_def)
  have muj: "reqMethod ?uj = ''PUT''" and cuj: "contentType ?uj = ''application/json''"
    and auj: "Atoi exLib (pathValueId ?uj) = Some 2"
    by (simp_all add: PUT_json_def exLib_def two)
  have muf: "reqMethod ?uf = ''PUT''" and cuf: "contentType ?uf \<noteq> ''application/json''"
    and auf: "Atoi exLib (pathValueId ?uf) = Some 2"
    by (simp_all add: PUT_form_def exLib_def two)
  have mub: "reqMethod ?ub = ''PUT''" and aub: "Atoi exLib (pathValueId ?ub) = None"
    by (simp_all add: PUT_json_def exLib_def abc)
  note T = content_type_selects_branch
  have pj: "studentsHandler exLib ?pj [exA]
              = (\<lparr>status = 201, respBody = JSONStudent exZ\<rparr>, [exA, exZ])"
    using T [of ?pj exLib "[exA]" 0, THEN conjunct1, rule_format, OF mpj cpj]
    by (simp add: POST_json_def exLib_def bodyZ_def zeroStudent_def validateStudent_def exZ_def)
  have ju: "studentsHandler exLib jsonUtf8 [exA]
              = (\<lparr>status = 400, respBody = Text ''Age is required''\<rparr>, [exA])"
    using T [of jsonUtf8 exLib "[exA]" 0, THEN conjunct2, THEN conjunct1, rule_format, OF mju cju]
    by (simp add: jsonUtf8_def exLib_def exParseForm_def mediaType_def httpError_def)
  have pf: "studentsHandler exLib ?pf [exA]
              = (\<lparr>status = 201, respBody = JSONStudent exB\<rparr>, [exA, exB])"
    using T [of ?pf exLib "[exA]" 0, THEN conjunct2, THEN conjunct1, rule_format, OF mpf cpf]
    by (simp add: POST_form_def exLib_def exParseForm_def mediaType_def formB_def a21
        zeroStudent_def validateStudent_def exB_def)
  have uj: "studentHandler exLib ?uj [exA, exB]
              = (\<lparr>status = 200, respBody = JSONStudent exZ\<rparr>, [exA, exZ])"
    using T [of ?uj exLib "[exA, exB]" 2, THEN conjunct2, THEN conjunct2, THEN conjunct1,
        rule_format, OF muj auj cuj]
    by (simp add: PUT_json_def exLib_def bodyZ_def zeroStudent_def validateStudent_def
        exA_def exB_def exZ_def)
  have uf: "studentHandler exLib ?uf [exA, exB]
              = (\<lparr>status = 200, respBody = JSONStudent exC\<rparr>, [exA, exC])"
    using T [of ?uf exLib "[exA, exB]" 2, THEN conjunct2, THEN conjunct2, THEN conjunct2,
        THEN conjunct1, rule_format, OF muf auf cuf]
    by (simp add: PUT_form_def exLib_def exParseForm_def mediaType_def formC_def a22
        validateStudent_def exA_def exB_def exC_def)
  have ub: "studentHandler exLib ?ub [exA, exB]
              = (\<lparr>status = 400, respBody = Text ''Invalid ID''\<rparr>, [exA, exB])"
    using T [of ?ub exLib "[exA, exB]" 0, THEN conjunct2, THEN conjunct2, THEN conjunct2,
        THEN conjunct2, rule_format, OF mub aub]
    by (simp add: httpError_def)
  show ?thesis
    using pj cju ju pf uj uf ub
    by (simp add: serve_def POST_json_def POST_form_def PUT_json_def PUT_form_def)
qed




section \<open>Ids after a delete\<close>

text \<open>
  C1. Create A, create B, delete id 1, create C: the store then holds B and C, two
  different records that both have id 2.
\<close>

theorem delete_then_create_duplicates_id:
  "run exLib [POST_form formA, POST_form formB, DELETE_id ''1'', POST_form formC] []
     = [exB, exC]
   \<and> ID exB = 2 \<and> ID exC = 2 \<and> exB \<noteq> exC
   \<and> \<not> distinct (map ID
         (run exLib [POST_form formA, POST_form formB, DELETE_id ''1'', POST_form formC] []))"
  by code_simp

text \<open>
  C7. In the store reached by that run, DELETE of id 2 answers 204 and removes B; GET of
  id 2 then answers 200 with C, and the list still holds a record with id 2.
\<close>

theorem get_after_delete_answers_duplicate:
  "run exLib [POST_form formA, POST_form formB, DELETE_id ''1'', POST_form formC] []
     = [exB, exC]
   \<and> serve exLib (DELETE_id ''2'') [exB, exC] = (\<lparr>status = 204, respBody = NoBody\<rparr>, [exC])
   \<and> serve exLib (GET_id ''2'') [exC] = (\<lparr>status = 200, respBody = JSONStudent exC\<rparr>, [exC])
   \<and> handleStudents [exC] = \<lparr>status = 200, respBody = JSONStudents [exC]\<rparr>
   \<and> ID exC = 2"
  by code_simp

end
